theory Spec2Isabelle
  imports Main "HOL-Library.Sublist"
begin

section \<open>The log filter of the run log pane (\<open>filterLogs\<close>)\<close>

text \<open>
  The function under study is \<^verbatim>\<open>filterLogs(logs, filter, filterStepKeys)\<close>. It imports its
  argument types from \<^verbatim>\<open>./LogsProvider\<close> and two helper functions, \<^verbatim>\<open>logNodeLevel\<close> and
  \<^verbatim>\<open>eventTypeToDisplayType\<close>; the two helpers are parameters of every definition below
  (written \<open>lvl\<close> and \<open>disp\<close>), so that everything proved holds for any classifier and any
  display mapping.
\<close>

subsection \<open>Data\<close>

text \<open>
  Modelled from the spec: the record type of one log node, declared in \<^verbatim>\<open>./LogsProvider\<close>.
  \<open>typename\<close> is the field \<^verbatim>\<open>__typename\<close> (the record kind). \<open>timestamp\<close> is the number
  that \<^verbatim>\<open>Number(node.timestamp)\<close> yields, an integer. \<open>stepKey\<close> and \<open>eventType\<close> are optional:
  \<open>None\<close> is an absent (null or undefined) field.
\<close>

record LogNode =
  typename :: string
  timestamp :: int
  stepKey :: "string option"
  eventType :: "string option"
  message :: string

text \<open>Modelled from the spec: the batch handed over by the provider; only \<^verbatim>\<open>allNodes\<close> is read.\<close>

record LogsProviderLogs =
  allNodes :: "LogNode list"

text \<open>
  Modelled from the spec: one term of the query. \<open>token\<close> is optional (\<open>None\<close> is the untokened
  free-text term); it is kept as a string, so that a token outside \<^verbatim>\<open>'query'\<close>, \<^verbatim>\<open>'step'\<close>,
  \<^verbatim>\<open>'type'\<close> can be written down.
\<close>

record LogFilterValue =
  token :: "string option"
  "value" :: string

text \<open>
  Modelled from the spec: the filter configuration. \<open>levels\<close> is the object indexed by level, a
  partial map: a level without an entry reads as \<^verbatim>\<open>undefined\<close>. \<open>sinceTime\<close> is an optional
  integer. The type of levels is a parameter \<open>'l\<close>.
\<close>

record 'l LogFilter =
  logQuery :: "LogFilterValue list"
  levels :: "'l \<rightharpoonup> bool"
  sinceTime :: "int option"
  hideNonMatches :: bool

text \<open>The object literal returned by \<^verbatim>\<open>filterLogs\<close>.\<close>

record FilterLogsResult =
  filteredNodes :: "LogNode list"
  textMatchNodes :: "LogNode list"

subsection \<open>JavaScript primitives used by the function\<close>

text \<open>
  Truthiness, as \<^verbatim>\<open>!x\<close> and \<^verbatim>\<open>x && y\<close> read it: an absent value is falsy, and so are
  \<^verbatim>\<open>false\<close>, the number \<^verbatim>\<open>0\<close> and the empty string.
\<close>

definition truthy_bool :: "bool option \<Rightarrow> bool" where
  "truthy_bool b = (case b of None \<Rightarrow> False | Some v \<Rightarrow> v)"

definition truthy_num :: "int option \<Rightarrow> bool" where
  "truthy_num n = (case n of None \<Rightarrow> False | Some v \<Rightarrow> v \<noteq> 0)"

definition truthy_str :: "string option \<Rightarrow> bool" where
  "truthy_str s = (case s of None \<Rightarrow> False | Some v \<Rightarrow> v \<noteq> [])"

text \<open>
  Strings. A JavaScript string is a sequence of UTF-16 code units; a character of the model is
  one code unit below 256, that is Basic Latin (0 to 127) or the Latin-1 Supplement (128 to
  255), written \<open>CHR 0xC9\<close> where it is not ASCII.

  \<^verbatim>\<open>String.prototype.toLowerCase\<close> maps every code point to its lower-case form in the
  Unicode character database. On the code units below 256 no mapping depends on the context
  and none leaves the range, so the function works unit by unit: the upper-case letters are
  the units 65 to 90 (\<^verbatim>\<open>A\<close> to \<^verbatim>\<open>Z\<close>), 192 to 214 and 216 to 222 (the accented capitals; 215
  is the multiplication sign), each of which moves up by 32 to its lower-case letter, and
  every other unit stays.
\<close>

definition lowerChar :: "char \<Rightarrow> char" where
  "lowerChar c =
     (let n = (of_char c :: nat)
      in if (65 \<le> n \<and> n \<le> 90) \<or> (192 \<le> n \<and> n \<le> 214) \<or> (216 \<le> n \<and> n \<le> 222)
         then char_of (n + 32) else c)"

definition toLowerCase :: "string \<Rightarrow> string" where
  "toLowerCase s = map lowerChar s"

text \<open>
  \<^verbatim>\<open>s.includes(t)\<close> on strings: \<open>t\<close> occurs in \<open>s\<close> as a contiguous run, searched from each
  position of \<open>s\<close> in turn.
\<close>

fun str_includes :: "string \<Rightarrow> string \<Rightarrow> bool" where
  "str_includes [] t = (t = [])"
| "str_includes (c # cs) t = (prefix t (c # cs) \<or> str_includes cs t)"

subsection \<open>The function\<close>

text \<open>
  The source's parameter \<^verbatim>\<open>filter\<close> is written \<open>flt\<close>, since \<open>filter\<close> is the list function that
  models \<^verbatim>\<open>Array.prototype.filter\<close>.
\<close>

text \<open>The callback of the first \<^verbatim>\<open>filter\<close>: its three tests, in the order of the source.\<close>

definition isPlannedEvent :: "LogNode \<Rightarrow> bool" where
  "isPlannedEvent node =
     (typename node = ''AssetMaterializationPlannedEvent'' \<or>
      typename node = ''AssetCheckEvaluationPlannedEvent'')"

definition levelOff :: "(LogNode \<Rightarrow> 'l) \<Rightarrow> 'l LogFilter \<Rightarrow> LogNode \<Rightarrow> bool" where
  "levelOff lvl flt node = (let l = lvl node in \<not> truthy_bool (levels flt l))"

definition beforeSinceTime :: "'l LogFilter \<Rightarrow> LogNode \<Rightarrow> bool" where
  "beforeSinceTime flt node =
     (truthy_num (sinceTime flt) \<and>
      (case sinceTime flt of None \<Rightarrow> False | Some t \<Rightarrow> timestamp node < t))"

definition keepNode :: "(LogNode \<Rightarrow> 'l) \<Rightarrow> 'l LogFilter \<Rightarrow> LogNode \<Rightarrow> bool" where
  "keepNode lvl flt node =
     (if isPlannedEvent node then False
      else if levelOff lvl flt node then False
      else if beforeSinceTime flt node then False
      else True)"

text \<open>The local constant \<^verbatim>\<open>filteredNodes\<close>: the nodes that pass kind, level and time.\<close>

definition levelTimeNodes :: "(LogNode \<Rightarrow> 'l) \<Rightarrow> LogsProviderLogs \<Rightarrow> 'l LogFilter \<Rightarrow> LogNode list" where
  "levelTimeNodes lvl logs flt = filter (keepNode lvl flt) (allNodes logs)"

definition hasTextFilter :: "'l LogFilter \<Rightarrow> bool" where
  "hasTextFilter flt =
     (case logQuery flt of [] \<Rightarrow> False | f # _ \<Rightarrow> value f \<noteq> [])"

text \<open>The callback of \<^verbatim>\<open>every\<close>: one query term against one node.\<close>

definition evalTerm :: "(string \<Rightarrow> string) \<Rightarrow> string list \<Rightarrow> LogNode \<Rightarrow> LogFilterValue \<Rightarrow> bool" where
  "evalTerm disp filterStepKeys node f =
     (if token f = Some ''query'' then
        truthy_str (stepKey node) \<and>
        (case stepKey node of None \<Rightarrow> False | Some k \<Rightarrow> k \<in> set filterStepKeys)
      else if token f = Some ''step'' then
        truthy_str (stepKey node) \<and> stepKey node = Some (value f)
      else if token f = Some ''type'' then
        truthy_str (eventType node) \<and>
        (case eventType node of None \<Rightarrow> False | Some e \<Rightarrow> value f = disp e)
      else str_includes (toLowerCase (message node)) (toLowerCase (value f)))"

text \<open>The callback of the second \<^verbatim>\<open>filter\<close>.\<close>

definition textMatch :: "(string \<Rightarrow> string) \<Rightarrow> 'l LogFilter \<Rightarrow> string list \<Rightarrow> LogNode \<Rightarrow> bool" where
  "textMatch disp flt filterStepKeys node =
     (length (logQuery flt) > 0 \<and>
      list_all (evalTerm disp filterStepKeys node) (logQuery flt))"

text \<open>
  The function itself. Its local constants \<^verbatim>\<open>filteredNodes\<close> and \<^verbatim>\<open>textMatchNodes\<close> are
  written \<open>fNodes\<close> and \<open>tNodes\<close>, since the two names are the fields of the returned object.
\<close>

definition filterLogs ::
  "(LogNode \<Rightarrow> 'l) \<Rightarrow> (string \<Rightarrow> string) \<Rightarrow> LogsProviderLogs \<Rightarrow> 'l LogFilter \<Rightarrow> string list
     \<Rightarrow> FilterLogsResult" where
  "filterLogs lvl disp logs flt filterStepKeys =
     (let fNodes = levelTimeNodes lvl logs flt;
          tNodes = (if hasTextFilter flt
                    then filter (textMatch disp flt filterStepKeys) fNodes
                    else [])
      in \<lparr> filteredNodes = (if hasTextFilter flt \<and> hideNonMatches flt then tNodes else fNodes),
           textMatchNodes = tNodes \<rparr>)"

subsection \<open>The guarded member read\<close>

text \<open>
  The source reads a member of a value that may be \<^verbatim>\<open>undefined\<close> at one place only, in
  \<^verbatim>\<open>!!(filter.logQuery[0] && filter.logQuery[0].value !== '')\<close>. Read step by step:
  indexing an empty array yields \<^verbatim>\<open>undefined\<close> (\<open>None\<close>); reading \<^verbatim>\<open>.value\<close> of
  \<^verbatim>\<open>undefined\<close> throws a \<^verbatim>\<open>TypeError\<close>; \<^verbatim>\<open>&&\<close> evaluates its right operand only when
  the left one is truthy, which an object is and \<^verbatim>\<open>undefined\<close> is not. \<open>hasTextFilterJS\<close> is
  that evaluation with the exception as a value; \<open>hasTextFilter\<close> above is its result.
\<close>

datatype js_error = TypeError

definition arrayFirst :: "'a list \<Rightarrow> 'a option" where
  "arrayFirst xs = (case xs of [] \<Rightarrow> None | x # _ \<Rightarrow> Some x)"

definition readValue :: "LogFilterValue option \<Rightarrow> js_error + string" where
  "readValue f = (case f of None \<Rightarrow> Inl TypeError | Some t \<Rightarrow> Inr (value t))"

definition hasTextFilterJS :: "'l LogFilter \<Rightarrow> js_error + bool" where
  "hasTextFilterJS flt =
     (if arrayFirst (logQuery flt) = None then Inr False
      else (case readValue (arrayFirst (logQuery flt)) of
              Inl e \<Rightarrow> Inl e
            | Inr v \<Rightarrow> Inr (v \<noteq> [])))"

subsection \<open>The specification's notions\<close>

text \<open>
  The specification calls a query active when \<open>logQuery\<close> is non-empty and the value of its first
  term is non-empty. This definition follows those words; \<open>hasTextFilter\<close> above follows the code.
\<close>

definition queryActive :: "'l LogFilter \<Rightarrow> bool" where
  "queryActive flt = (logQuery flt \<noteq> [] \<and> value (hd (logQuery flt)) \<noteq> [])"

text \<open>
  Letter case, as a table: the upper-case letters among the code units below 256 and, at the
  same positions, their lower-case letters. Two characters are case variants of each other
  when they are equal or stand at the same position of the two rows; two strings are, when
  they have the same length and their characters are case variants position by position.
  This is what "case-insensitive" compares up to.
\<close>

definition upperLetters :: string where
  "upperLetters = ''ABCDEFGHIJKLMNOPQRSTUVWXYZ'' @
     [CHR 0xC0, CHR 0xC1, CHR 0xC2, CHR 0xC3, CHR 0xC4, CHR 0xC5, CHR 0xC6, CHR 0xC7,
      CHR 0xC8, CHR 0xC9, CHR 0xCA, CHR 0xCB, CHR 0xCC, CHR 0xCD, CHR 0xCE, CHR 0xCF,
      CHR 0xD0, CHR 0xD1, CHR 0xD2, CHR 0xD3, CHR 0xD4, CHR 0xD5, CHR 0xD6, CHR 0xD8,
      CHR 0xD9, CHR 0xDA, CHR 0xDB, CHR 0xDC, CHR 0xDD, CHR 0xDE]"

definition lowerLetters :: string where
  "lowerLetters = ''abcdefghijklmnopqrstuvwxyz'' @
     [CHR 0xE0, CHR 0xE1, CHR 0xE2, CHR 0xE3, CHR 0xE4, CHR 0xE5, CHR 0xE6, CHR 0xE7,
      CHR 0xE8, CHR 0xE9, CHR 0xEA, CHR 0xEB, CHR 0xEC, CHR 0xED, CHR 0xEE, CHR 0xEF,
      CHR 0xF0, CHR 0xF1, CHR 0xF2, CHR 0xF3, CHR 0xF4, CHR 0xF5, CHR 0xF6, CHR 0xF8,
      CHR 0xF9, CHR 0xFA, CHR 0xFB, CHR 0xFC, CHR 0xFD, CHR 0xFE]"

definition caseVariant :: "char \<Rightarrow> char \<Rightarrow> bool" where
  "caseVariant c d =
     (c = d \<or> (c, d) \<in> set (zip upperLetters lowerLetters) \<or>
      (d, c) \<in> set (zip upperLetters lowerLetters))"

subsection \<open>Concrete inputs\<close>

text \<open>
  A sample classifier, four sample nodes and a sample filter, used to run the function on
  concrete batches. \<open>exRun\<close> and \<open>exPlanned\<close> are the two records of the specification's
  scenarios; \<open>exA\<close> and \<open>exB\<close> are the two records of its two-term query example, and \<open>andQuery\<close>
  is that query: a step term for step A and a free-text term \<open>foo\<close>.
\<close>

definition exLevel :: "LogNode \<Rightarrow> string" where
  "exLevel node = (if typename node = ''LogMessageEvent'' then ''INFO'' else ''EVENT'')"

definition exRun :: LogNode where
  "exRun = \<lparr>typename = ''LogMessageEvent'', timestamp = 10, stepKey = None, eventType = None,
            message = ''step ran''\<rparr>"

definition exPlanned :: LogNode where
  "exPlanned = \<lparr>typename = ''AssetMaterializationPlannedEvent'', timestamp = 11, stepKey = None,
                eventType = None, message = []\<rparr>"

definition exA :: LogNode where
  "exA = \<lparr>typename = ''LogMessageEvent'', timestamp = 12, stepKey = Some ''A'', eventType = None,
          message = ''foobar''\<rparr>"

definition exB :: LogNode where
  "exB = \<lparr>typename = ''LogMessageEvent'', timestamp = 13, stepKey = Some ''B'', eventType = None,
          message = ''foobar''\<rparr>"

definition exFilter :: "string LogFilter" where
  "exFilter = \<lparr>logQuery = [], levels = map_of [(''INFO'', True)], sinceTime = None,
               hideNonMatches = True\<rparr>"

definition andQuery :: "LogFilterValue list" where
  "andQuery = [\<lparr>token = Some ''step'', value = ''A''\<rparr>, \<lparr>token = None, value = ''foo''\<rparr>]"

section \<open>Properties\<close>

subsection \<open>Auxiliary facts\<close>

lemmas ex_defs = exLevel_def exRun_def exPlanned_def exA_def exB_def exFilter_def andQuery_def

lemmas stage_defs = keepNode_def isPlannedEvent_def levelOff_def beforeSinceTime_def
  truthy_bool_def truthy_num_def

lemma hasTextFilter_iff: "hasTextFilter flt = queryActive flt"
  by (cases "logQuery flt") (simp_all add: hasTextFilter_def queryActive_def)

lemma textMatch_iff:
  "logQuery flt \<noteq> [] \<Longrightarrow>
   textMatch disp flt keys n = (\<forall>t\<in>set (logQuery flt). evalTerm disp keys n t)"
  by (simp add: textMatch_def list_all_iff)

lemma textMatchNodes_filterLogs:
  "textMatchNodes (filterLogs lvl disp logs flt keys) =
     (if hasTextFilter flt then filter (textMatch disp flt keys) (levelTimeNodes lvl logs flt)
      else [])"
  by (simp add: filterLogs_def Let_def)

lemma filteredNodes_filterLogs:
  "filteredNodes (filterLogs lvl disp logs flt keys) =
     (if hasTextFilter flt \<and> hideNonMatches flt
      then filter (textMatch disp flt keys) (levelTimeNodes lvl logs flt)
      else levelTimeNodes lvl logs flt)"
  by (simp add: filterLogs_def Let_def)

lemma str_includes_sublist: "str_includes s t = sublist t s"
  by (induction s) (auto simp: sublist_Cons_right)

lemma str_includes_toLowerCase:
  "str_includes s t \<Longrightarrow> str_includes (toLowerCase s) (toLowerCase t)"
  by (simp add: str_includes_sublist toLowerCase_def map_mono_sublist)

lemma str_includes_Nil: "str_includes s []"
  by (simp add: str_includes_sublist)

lemma levelTimeNodes_set:
  "n \<in> set (levelTimeNodes lvl logs flt) \<longleftrightarrow> n \<in> set (allNodes logs) \<and> keepNode lvl flt n"
  by (simp add: levelTimeNodes_def)

lemma textMatchNodes_set:
  "n \<in> set (textMatchNodes (filterLogs lvl disp logs flt keys)) \<longleftrightarrow>
     hasTextFilter flt \<and> textMatch disp flt keys n \<and> n \<in> set (levelTimeNodes lvl logs flt)"
  by (auto simp: textMatchNodes_filterLogs)

lemma filteredNodes_subset:
  "set (filteredNodes (filterLogs lvl disp logs flt keys)) \<subseteq> set (levelTimeNodes lvl logs flt)"
  by (auto simp: filteredNodes_filterLogs)

lemma textMatchNodes_subset:
  "set (textMatchNodes (filterLogs lvl disp logs flt keys)) \<subseteq> set (levelTimeNodes lvl logs flt)"
  by (auto simp: textMatchNodes_filterLogs)

lemma subseq_count_list: "subseq xs ys \<Longrightarrow> count_list xs a \<le> count_list ys a"
  by (induction rule: list_emb.induct) auto

lemma subseq_levelTimeNodes: "subseq (levelTimeNodes lvl logs flt) (allNodes logs)"
  by (simp add: levelTimeNodes_def)

lemma subseq_textMatch_levelTime:
  "subseq (textMatchNodes (filterLogs lvl disp logs flt keys)) (levelTimeNodes lvl logs flt)"
  by (simp add: textMatchNodes_filterLogs)

lemma subseq_filtered_levelTime:
  "subseq (filteredNodes (filterLogs lvl disp logs flt keys)) (levelTimeNodes lvl logs flt)"
  by (simp add: filteredNodes_filterLogs)

lemma keepNode_sinceTime_zero:
  "sinceTime flt = Some 0 \<Longrightarrow> keepNode lvl flt = keepNode lvl (flt\<lparr>sinceTime := None\<rparr>)"
  by (rule ext) (simp add: stage_defs)

lemma levelOff_absent_eq_false:
  "levelOff lvl (flt\<lparr>levels := (levels flt)(l := None)\<rparr>) =
   levelOff lvl (flt\<lparr>levels := (levels flt)(l \<mapsto> False)\<rparr>)"
  by (rule ext) (simp add: levelOff_def truthy_bool_def)

lemma toLowerCase_upperLetters: "map lowerChar upperLetters = lowerLetters"
  by code_simp

lemma toLowerCase_lowerLetters: "map lowerChar lowerLetters = lowerLetters"
  by code_simp

lemma length_letters: "length upperLetters = length lowerLetters"
  by code_simp

lemma lowerChar_zip:
  assumes "(c, d) \<in> set (zip upperLetters lowerLetters)"
  shows "lowerChar c = d" and "lowerChar d = d"
proof -
  from assms obtain i where i: "i < length upperLetters" "i < length lowerLetters"
    "c = upperLetters ! i" "d = lowerLetters ! i"
    by (auto simp: in_set_zip)
  have "lowerChar c = map lowerChar upperLetters ! i"
    using i by simp
  then show "lowerChar c = d"
    using i by (simp add: toLowerCase_upperLetters)
  have "lowerChar d = map lowerChar lowerLetters ! i"
    using i by simp
  then show "lowerChar d = d"
    using i by (simp add: toLowerCase_lowerLetters)
qed

lemma lowerChar_caseVariant: "caseVariant c d \<Longrightarrow> lowerChar c = lowerChar d"
  unfolding caseVariant_def using lowerChar_zip by metis

lemma toLowerCase_caseVariant:
  "list_all2 caseVariant s s' \<Longrightarrow> toLowerCase s = toLowerCase s'"
  by (induction rule: list_all2_induct) (simp_all add: toLowerCase_def lowerChar_caseVariant)

lemma upper_codes:
  "\<forall>n\<in>set ([65..<91] @ [192..<215] @ [216..<223]). char_of (n::nat) \<in> set upperLetters"
  by code_simp

lemma lowerChar_other: "c \<notin> set upperLetters \<Longrightarrow> lowerChar c = c"
proof (rule ccontr)
  assume n: "c \<notin> set upperLetters" and "lowerChar c \<noteq> c"
  then have "(of_char c :: nat) \<in> {65..<91} \<union> ({192..<215} \<union> {216..<223})"
    by (auto simp: lowerChar_def Let_def split: if_splits)
  then have "of_char c \<in> set ([65..<91] @ [192..<215] @ [216..<223] :: nat list)"
    by (simp only: set_append set_upt)
  with upper_codes have "char_of (of_char c :: nat) \<in> set upperLetters"
    by blast
  with n show False
    by simp
qed

subsection \<open>Result assembly\<close>

text \<open>
  Claim C1. For every batch, filter and set of relevant step keys: \<open>textMatchNodes\<close> is the
  text-matched list (the level/time survivors on which every query term holds) when a query is
  active, and empty otherwise; \<open>filteredNodes\<close> is \<open>textMatchNodes\<close> when a query is active and
  \<open>hideNonMatches\<close> is set, and the list of level/time survivors in every other case.
\<close>

theorem result_assembly:
  "textMatchNodes (filterLogs lvl disp logs flt keys) =
     (if queryActive flt
      then filter (\<lambda>n. \<forall>t\<in>set (logQuery flt). evalTerm disp keys n t) (levelTimeNodes lvl logs flt)
      else []) \<and>
   filteredNodes (filterLogs lvl disp logs flt keys) =
     (if queryActive flt \<and> hideNonMatches flt
      then textMatchNodes (filterLogs lvl disp logs flt keys)
      else levelTimeNodes lvl logs flt)"
proof (cases "queryActive flt")
  case True
  then have ne: "logQuery flt \<noteq> []"
    by (simp add: queryActive_def)
  have "filter (textMatch disp flt keys) (levelTimeNodes lvl logs flt) =
        filter (\<lambda>n. \<forall>t\<in>set (logQuery flt). evalTerm disp keys n t) (levelTimeNodes lvl logs flt)"
    by (rule filter_cong) (simp_all add: textMatch_iff [OF ne])
  with True show ?thesis
    by (simp add: textMatchNodes_filterLogs filteredNodes_filterLogs hasTextFilter_iff)
next
  case False
  then show ?thesis
    by (simp add: textMatchNodes_filterLogs filteredNodes_filterLogs hasTextFilter_iff)
qed

text \<open>
  The theorem at the specification's first scenario (no query, \<open>hideNonMatches\<close> set) and at a
  batch with the two-term query, once hiding non-matches and once not.
\<close>

theorem result_assembly_witness:
  "(\<not> queryActive exFilter \<and> hideNonMatches exFilter \<and>
    textMatchNodes (filterLogs exLevel id \<lparr>allNodes = [exRun, exPlanned]\<rparr> exFilter []) = [] \<and>
    filteredNodes (filterLogs exLevel id \<lparr>allNodes = [exRun, exPlanned]\<rparr> exFilter []) = [exRun]) \<and>
   (queryActive (exFilter\<lparr>logQuery := andQuery\<rparr>) \<and>
    textMatchNodes (filterLogs exLevel id \<lparr>allNodes = [exRun, exPlanned, exA, exB]\<rparr>
                      (exFilter\<lparr>logQuery := andQuery\<rparr>) []) = [exA] \<and>
    filteredNodes (filterLogs exLevel id \<lparr>allNodes = [exRun, exPlanned, exA, exB]\<rparr>
                      (exFilter\<lparr>logQuery := andQuery\<rparr>) []) = [exA]) \<and>
   (filteredNodes (filterLogs exLevel id \<lparr>allNodes = [exRun, exPlanned, exA, exB]\<rparr>
                      (exFilter\<lparr>logQuery := andQuery, hideNonMatches := False\<rparr>) [])
      = [exRun, exA, exB])"
proof -
  let ?f = "exFilter\<lparr>logQuery := andQuery\<rparr>"
  let ?g = "exFilter\<lparr>logQuery := andQuery, hideNonMatches := False\<rparr>"
  let ?two = "\<lparr>allNodes = [exRun, exPlanned]\<rparr>"
  let ?four = "\<lparr>allNodes = [exRun, exPlanned, exA, exB]\<rparr>"
  have q: "\<not> queryActive exFilter" "queryActive ?f" "queryActive ?g"
    by (simp_all add: queryActive_def exFilter_def andQuery_def)
  have h: "hideNonMatches exFilter" "hideNonMatches ?f" "\<not> hideNonMatches ?g"
    by (simp_all add: exFilter_def)
  have s: "levelTimeNodes exLevel ?two exFilter = [exRun]"
    "levelTimeNodes exLevel ?four ?f = [exRun, exA, exB]"
    "levelTimeNodes exLevel ?four ?g = [exRun, exA, exB]"
    by (simp_all add: levelTimeNodes_def stage_defs ex_defs)
  have e: "\<not> evalTerm id [] exRun \<lparr>token = Some ''step'', value = ''A''\<rparr>"
    "evalTerm id [] exA \<lparr>token = Some ''step'', value = ''A''\<rparr>"
    "evalTerm id [] exA \<lparr>token = None, value = ''foo''\<rparr>"
    "\<not> evalTerm id [] exB \<lparr>token = Some ''step'', value = ''A''\<rparr>"
    by code_simp+
  have l: "set andQuery = {\<lparr>token = Some ''step'', value = ''A''\<rparr>, \<lparr>token = None, value = ''foo''\<rparr>}"
    by (simp add: andQuery_def)
  have 1: "textMatchNodes (filterLogs exLevel id ?two exFilter []) = [] \<and>
           filteredNodes (filterLogs exLevel id ?two exFilter []) = [exRun]"
    using result_assembly [of exLevel id ?two exFilter "[]"] by (simp add: q h s)
  have 2: "textMatchNodes (filterLogs exLevel id ?four ?f []) = [exA] \<and>
           filteredNodes (filterLogs exLevel id ?four ?f []) = [exA]"
    using result_assembly [of exLevel id ?four ?f "[]"] by (simp add: q h s l e)
  have 3: "filteredNodes (filterLogs exLevel id ?four ?g []) = [exRun, exA, exB]"
    using result_assembly [of exLevel id ?four ?g "[]"] by (simp add: q s)
  from q h 1 2 3 show ?thesis
    by blast
qed

subsection \<open>Conjunction of the query terms\<close>

text \<open>
  Claim C2. When a query is active, a level/time survivor is in \<open>textMatchNodes\<close> if and only if
  every term of \<open>logQuery\<close> holds of it: the terms are combined by conjunction. In particular,
  under the query made of a step term \<open>A\<close> and a free-text term \<open>foo\<close>, a survivor with step key
  \<open>A\<close> whose message contains \<open>foo\<close> is matched, and a record with step key \<open>B\<close> is not,
  whatever its message.
\<close>

theorem and_semantics:
  "(queryActive flt \<and> n \<in> set (levelTimeNodes lvl logs flt) \<longrightarrow>
      (n \<in> set (textMatchNodes (filterLogs lvl disp logs flt keys)) \<longleftrightarrow>
       (\<forall>t\<in>set (logQuery flt). evalTerm disp keys n t))) \<and>
   (logQuery flt = andQuery \<and> n \<in> set (levelTimeNodes lvl logs flt) \<and>
    stepKey n = Some ''A'' \<and> str_includes (message n) ''foo'' \<longrightarrow>
      n \<in> set (textMatchNodes (filterLogs lvl disp logs flt keys))) \<and>
   (logQuery flt = andQuery \<and> stepKey n = Some ''B'' \<longrightarrow>
      n \<notin> set (textMatchNodes (filterLogs lvl disp logs flt keys)))"
proof (intro conjI impI)
  assume a: "queryActive flt \<and> n \<in> set (levelTimeNodes lvl logs flt)"
  then have "logQuery flt \<noteq> []"
    by (simp add: queryActive_def)
  with a show "n \<in> set (textMatchNodes (filterLogs lvl disp logs flt keys)) \<longleftrightarrow>
      (\<forall>t\<in>set (logQuery flt). evalTerm disp keys n t)"
    by (simp add: textMatchNodes_set hasTextFilter_iff textMatch_iff)
next
  assume a: "logQuery flt = andQuery \<and> n \<in> set (levelTimeNodes lvl logs flt) \<and>
    stepKey n = Some ''A'' \<and> str_includes (message n) ''foo''"
  then have "str_includes (toLowerCase (message n)) (toLowerCase ''foo'')"
    by (simp add: str_includes_toLowerCase)
  with a show "n \<in> set (textMatchNodes (filterLogs lvl disp logs flt keys))"
    by (simp add: textMatchNodes_set hasTextFilter_def textMatch_def evalTerm_def
        truthy_str_def andQuery_def)
next
  assume "logQuery flt = andQuery \<and> stepKey n = Some ''B''"
  then show "n \<notin> set (textMatchNodes (filterLogs lvl disp logs flt keys))"
    by (simp add: textMatchNodes_set textMatch_def evalTerm_def andQuery_def)
qed

text \<open>The theorem at the two records of the specification's example.\<close>

theorem and_semantics_witness:
  "(queryActive (exFilter\<lparr>logQuery := andQuery\<rparr>) \<and>
    exA \<in> set (levelTimeNodes exLevel \<lparr>allNodes = [exA, exB]\<rparr> (exFilter\<lparr>logQuery := andQuery\<rparr>)) \<and>
    stepKey exA = Some ''A'' \<and> str_includes (message exA) ''foo'' \<and>
    evalTerm id [] exA \<lparr>token = Some ''step'', value = ''A''\<rparr> \<and>
    evalTerm id [] exA \<lparr>token = None, value = ''foo''\<rparr> \<and>
    exA \<in> set (textMatchNodes (filterLogs exLevel id \<lparr>allNodes = [exA, exB]\<rparr>
                                  (exFilter\<lparr>logQuery := andQuery\<rparr>) []))) \<and>
   (exB \<in> set (levelTimeNodes exLevel \<lparr>allNodes = [exA, exB]\<rparr> (exFilter\<lparr>logQuery := andQuery\<rparr>)) \<and>
    stepKey exB = Some ''B'' \<and> str_includes (message exB) ''foo'' \<and>
    \<not> evalTerm id [] exB \<lparr>token = Some ''step'', value = ''A''\<rparr> \<and>
    exB \<notin> set (textMatchNodes (filterLogs exLevel id \<lparr>allNodes = [exA, exB]\<rparr>
                                  (exFilter\<lparr>logQuery := andQuery\<rparr>) [])))"
proof -
  let ?f = "exFilter\<lparr>logQuery := andQuery\<rparr>"
  let ?logs = "\<lparr>allNodes = [exA, exB]\<rparr>"
  have q: "queryActive ?f"
    by (simp add: queryActive_def andQuery_def)
  have l: "logQuery ?f = andQuery"
    by simp
  have s: "levelTimeNodes exLevel ?logs ?f = [exA, exB]"
    by (simp add: levelTimeNodes_def stage_defs ex_defs)
  have k: "stepKey exA = Some ''A''" "stepKey exB = Some ''B''"
    by (simp_all add: exA_def exB_def)
  have m: "str_includes (message exA) ''foo''" "str_includes (message exB) ''foo''"
    by code_simp+
  have a: "exA \<in> set (levelTimeNodes exLevel ?logs ?f)" "exB \<in> set (levelTimeNodes exLevel ?logs ?f)"
    by (simp_all add: s)
  note r = and_semantics [of ?f exA exLevel ?logs id "[]"] and_semantics [of ?f exB exLevel ?logs id "[]"]
  have 1: "exA \<in> set (textMatchNodes (filterLogs exLevel id ?logs ?f []))"
    using r(1) l a k m by blast
  have 2: "exB \<notin> set (textMatchNodes (filterLogs exLevel id ?logs ?f []))"
    using r(2) l k by blast
  have 3: "evalTerm id [] exA \<lparr>token = Some ''step'', value = ''A''\<rparr> \<and>
           evalTerm id [] exA \<lparr>token = None, value = ''foo''\<rparr>"
    using r(1) q a 1 l by (simp add: andQuery_def)
  have f: "evalTerm id [] exB \<lparr>token = None, value = ''foo''\<rparr>"
    by code_simp
  have 4: "\<not> evalTerm id [] exB \<lparr>token = Some ''step'', value = ''A''\<rparr>"
    using r(2) q a 2 l f by (simp add: andQuery_def)
  from q a k m 1 2 3 4 show ?thesis
    by blast
qed

subsection \<open>Exclusion of the planned-event kinds\<close>

text \<open>
  Claim C3. Whatever the classifier, the levels table, the time floor, the query, the
  \<open>hideNonMatches\<close> flag and the relevant step keys, a record whose kind is
  \<open>AssetMaterializationPlannedEvent\<close> or \<open>AssetCheckEvaluationPlannedEvent\<close> is rejected by the
  first callback (which tests the kind before level and time) and appears neither in
  \<open>filteredNodes\<close> nor in \<open>textMatchNodes\<close>.
\<close>

theorem reserved_kind_exclusion:
  "typename n = ''AssetMaterializationPlannedEvent'' \<or>
   typename n = ''AssetCheckEvaluationPlannedEvent'' \<Longrightarrow>
   \<not> keepNode lvl flt n \<and>
   n \<notin> set (filteredNodes (filterLogs lvl disp logs flt keys)) \<and>
   n \<notin> set (textMatchNodes (filterLogs lvl disp logs flt keys))"
proof -
  assume "typename n = ''AssetMaterializationPlannedEvent'' \<or>
          typename n = ''AssetCheckEvaluationPlannedEvent''"
  then have k: "\<not> keepNode lvl flt n"
    by (simp add: keepNode_def isPlannedEvent_def)
  then have "n \<notin> set (levelTimeNodes lvl logs flt)"
    by (simp add: levelTimeNodes_set)
  with k show ?thesis
    using filteredNodes_subset [of lvl disp logs flt keys]
      textMatchNodes_subset [of lvl disp logs flt keys] by blast
qed

text \<open>
  The theorem at a batch holding a planned event whose level (\<open>EVENT\<close> under the sample
  classifier) is switched on: the record is removed all the same.
\<close>

theorem reserved_kind_exclusion_witness:
  "typename exPlanned = ''AssetMaterializationPlannedEvent'' \<and>
   exPlanned \<in> set (allNodes \<lparr>allNodes = [exRun, exPlanned]\<rparr>) \<and>
   \<not> keepNode exLevel (exFilter\<lparr>levels := map_of [(''EVENT'', True)]\<rparr>) exPlanned \<and>
   exPlanned \<notin> set (filteredNodes (filterLogs exLevel id \<lparr>allNodes = [exRun, exPlanned]\<rparr>
                       (exFilter\<lparr>levels := map_of [(''EVENT'', True)]\<rparr>) [])) \<and>
   exPlanned \<notin> set (textMatchNodes (filterLogs exLevel id \<lparr>allNodes = [exRun, exPlanned]\<rparr>
                       (exFilter\<lparr>levels := map_of [(''EVENT'', True)]\<rparr>) []))"
proof -
  have t: "typename exPlanned = ''AssetMaterializationPlannedEvent''"
    by (simp add: exPlanned_def)
  then have "typename exPlanned = ''AssetMaterializationPlannedEvent'' \<or>
             typename exPlanned = ''AssetCheckEvaluationPlannedEvent''"
    by simp
  from reserved_kind_exclusion [OF this] t show ?thesis
    by simp
qed

subsection \<open>Order preservation\<close>

text \<open>
  Claim C4. Both returned lists are sub-sequences of \<open>allNodes\<close>: every output record comes from
  the input, the relative order is the input's, and no record occurs more often in an output
  than in the input.
\<close>

theorem order_preservation:
  "subseq (filteredNodes (filterLogs lvl disp logs flt keys)) (allNodes logs) \<and>
   subseq (textMatchNodes (filterLogs lvl disp logs flt keys)) (allNodes logs) \<and>
   count_list (filteredNodes (filterLogs lvl disp logs flt keys)) n \<le> count_list (allNodes logs) n \<and>
   count_list (textMatchNodes (filterLogs lvl disp logs flt keys)) n \<le> count_list (allNodes logs) n"
proof -
  have v: "subseq (filteredNodes (filterLogs lvl disp logs flt keys)) (allNodes logs)"
    using subseq_filtered_levelTime subseq_levelTimeNodes
    by (rule subseq_order.order_trans)
  have t: "subseq (textMatchNodes (filterLogs lvl disp logs flt keys)) (allNodes logs)"
    using subseq_textMatch_levelTime subseq_levelTimeNodes
    by (rule subseq_order.order_trans)
  from v t show ?thesis
    by (simp add: subseq_count_list)
qed

text \<open>The theorem at a batch in which one record occurs twice, around a removed one.\<close>

theorem order_preservation_witness:
  "filteredNodes (filterLogs exLevel id \<lparr>allNodes = [exB, exPlanned, exA, exB]\<rparr>
                    (exFilter\<lparr>hideNonMatches := False\<rparr>) []) = [exB, exA, exB] \<and>
   subseq [exB, exA, exB] [exB, exPlanned, exA, exB]"
proof -
  have "filteredNodes (filterLogs exLevel id \<lparr>allNodes = [exB, exPlanned, exA, exB]\<rparr>
                    (exFilter\<lparr>hideNonMatches := False\<rparr>) []) = [exB, exA, exB]"
    by (simp add: filterLogs_def levelTimeNodes_def stage_defs hasTextFilter_def ex_defs)
  with order_preservation [of exLevel id "\<lparr>allNodes = [exB, exPlanned, exA, exB]\<rparr>"
      "exFilter\<lparr>hideNonMatches := False\<rparr>" "[]"]
  show ?thesis
    by simp
qed

subsection \<open>The time floor\<close>

text \<open>
  Claim C5, as amended. When \<open>sinceTime\<close> is set to a non-zero value \<open>t\<close>, the time test drops
  exactly the records whose timestamp is strictly below \<open>t\<close>: a record with timestamp \<open>t\<close> is
  kept and one with timestamp \<open>t - 1\<close> is dropped, and a record of the batch that passes the
  kind and level tests survives if and only if its timestamp is at least \<open>t\<close>. When \<open>sinceTime\<close>
  is absent, the time test drops nothing.
\<close>

theorem time_floor_boundary:
  "(sinceTime flt = Some t \<and> t \<noteq> 0 \<longrightarrow>
      (beforeSinceTime flt n \<longleftrightarrow> timestamp n < t) \<and>
      (timestamp n = t \<longrightarrow> \<not> beforeSinceTime flt n) \<and>
      (timestamp n = t - 1 \<longrightarrow> beforeSinceTime flt n) \<and>
      (n \<in> set (allNodes logs) \<and> \<not> isPlannedEvent n \<and> \<not> levelOff lvl flt n \<longrightarrow>
         (n \<in> set (levelTimeNodes lvl logs flt) \<longleftrightarrow> t \<le> timestamp n))) \<and>
   (sinceTime flt = None \<longrightarrow>
      \<not> beforeSinceTime flt n \<and>
      (n \<in> set (allNodes logs) \<and> \<not> isPlannedEvent n \<and> \<not> levelOff lvl flt n \<longrightarrow>
         n \<in> set (levelTimeNodes lvl logs flt)))"
  by (auto simp: beforeSinceTime_def truthy_num_def levelTimeNodes_set keepNode_def)

text \<open>
  The theorem with floor 10, at a record with timestamp 10 (kept) and one with timestamp 9
  (dropped), and without a floor.
\<close>

theorem time_floor_boundary_witness:
  "sinceTime (exFilter\<lparr>sinceTime := Some 10\<rparr>) = Some 10 \<and> (10::int) \<noteq> 0 \<and>
   timestamp exRun = 10 \<and>
   \<not> beforeSinceTime (exFilter\<lparr>sinceTime := Some 10\<rparr>) exRun \<and>
   beforeSinceTime (exFilter\<lparr>sinceTime := Some 10\<rparr>) (exRun\<lparr>timestamp := 9\<rparr>) \<and>
   exRun \<in> set (levelTimeNodes exLevel \<lparr>allNodes = [exRun\<lparr>timestamp := 9\<rparr>, exRun]\<rparr>
                   (exFilter\<lparr>sinceTime := Some 10\<rparr>)) \<and>
   exRun\<lparr>timestamp := 9\<rparr> \<notin> set (levelTimeNodes exLevel \<lparr>allNodes = [exRun\<lparr>timestamp := 9\<rparr>, exRun]\<rparr>
                   (exFilter\<lparr>sinceTime := Some 10\<rparr>)) \<and>
   sinceTime exFilter = None \<and>
   \<not> beforeSinceTime exFilter (exRun\<lparr>timestamp := 9\<rparr>)"
proof -
  let ?f = "exFilter\<lparr>sinceTime := Some 10\<rparr>"
  let ?nine = "exRun\<lparr>timestamp := 9\<rparr>"
  let ?logs = "\<lparr>allNodes = [?nine, exRun]\<rparr>"
  have s: "sinceTime ?f = Some 10" "sinceTime exFilter = None"
    by (simp_all add: exFilter_def)
  have t: "timestamp exRun = 10" "timestamp ?nine = 10 - 1"
    by (simp_all add: exRun_def)
  have m: "exRun \<in> set (allNodes ?logs)" "?nine \<in> set (allNodes ?logs)"
    by simp_all
  have p: "\<not> isPlannedEvent exRun" "\<not> isPlannedEvent ?nine"
    by (simp_all add: isPlannedEvent_def exRun_def)
  have l: "\<not> levelOff exLevel ?f exRun" "\<not> levelOff exLevel ?f ?nine"
    by (simp_all add: levelOff_def truthy_bool_def ex_defs)
  note r = time_floor_boundary [of ?f 10 exRun ?logs exLevel]
    time_floor_boundary [of ?f 10 ?nine ?logs exLevel]
    time_floor_boundary [of exFilter 10 ?nine ?logs exLevel]
  have 1: "\<not> beforeSinceTime ?f exRun"
    using r(1) s t by simp
  have 2: "beforeSinceTime ?f ?nine"
    using r(2) s t by simp
  have 3: "exRun \<in> set (levelTimeNodes exLevel ?logs ?f)"
    using r(1) s t m p l by simp
  have 4: "?nine \<notin> set (levelTimeNodes exLevel ?logs ?f)"
    using r(2) s t m p l by simp
  have 5: "\<not> beforeSinceTime exFilter ?nine"
    using r(3) s by simp
  from s t 1 2 3 4 5 show ?thesis
    by simp
qed

text \<open>
  Claim C5 as stated says that a set floor drops every record strictly before it. With the
  floor set to 0 and a record of timestamp \<open>-1 = 0 - 1\<close>, strictly before the floor, the time
  test does not fire and the record is returned.
\<close>

theorem time_floor_counterexample:
  "sinceTime (exFilter\<lparr>sinceTime := Some 0\<rparr>) = Some 0 \<and>
   timestamp (exRun\<lparr>timestamp := - 1\<rparr>) = 0 - 1 \<and>
   timestamp (exRun\<lparr>timestamp := - 1\<rparr>) < 0 \<and>
   \<not> beforeSinceTime (exFilter\<lparr>sinceTime := Some 0\<rparr>) (exRun\<lparr>timestamp := - 1\<rparr>) \<and>
   filteredNodes (filterLogs exLevel id \<lparr>allNodes = [exRun\<lparr>timestamp := - 1\<rparr>]\<rparr>
                    (exFilter\<lparr>sinceTime := Some 0\<rparr>) []) = [exRun\<lparr>timestamp := - 1\<rparr>]"
  by (simp add: filterLogs_def levelTimeNodes_def stage_defs hasTextFilter_def ex_defs)

subsection \<open>The level gate\<close>

text \<open>
  Claim C6. If the levels table maps the classified level of a record to false, or has no
  entry for it, the record is rejected by the level test and appears neither in
  \<open>filteredNodes\<close> nor in \<open>textMatchNodes\<close>. A missing entry behaves exactly like an entry set
  to false: removing the entry of a level and setting it to false give the same result.
\<close>

theorem level_gate:
  "(levels flt (lvl n) = Some False \<or> levels flt (lvl n) = None \<longrightarrow>
      levelOff lvl flt n \<and>
      n \<notin> set (filteredNodes (filterLogs lvl disp logs flt keys)) \<and>
      n \<notin> set (textMatchNodes (filterLogs lvl disp logs flt keys))) \<and>
   filterLogs lvl disp logs (flt\<lparr>levels := (levels flt)(l := None)\<rparr>) keys =
   filterLogs lvl disp logs (flt\<lparr>levels := (levels flt)(l \<mapsto> False)\<rparr>) keys"
proof (intro conjI impI)
  assume "levels flt (lvl n) = Some False \<or> levels flt (lvl n) = None"
  then show o: "levelOff lvl flt n"
    by (auto simp: levelOff_def truthy_bool_def)
  then have "n \<notin> set (levelTimeNodes lvl logs flt)"
    by (simp add: levelTimeNodes_set keepNode_def)
  then show "n \<notin> set (filteredNodes (filterLogs lvl disp logs flt keys))"
    and "n \<notin> set (textMatchNodes (filterLogs lvl disp logs flt keys))"
    using filteredNodes_subset [of lvl disp logs flt keys]
      textMatchNodes_subset [of lvl disp logs flt keys] by blast+
next
  let ?a = "flt\<lparr>levels := (levels flt)(l := None)\<rparr>"
  let ?b = "flt\<lparr>levels := (levels flt)(l \<mapsto> False)\<rparr>"
  have k: "keepNode lvl ?a = keepNode lvl ?b"
    by (rule ext) (simp add: keepNode_def beforeSinceTime_def levelOff_absent_eq_false)
  have h: "hasTextFilter ?a = hasTextFilter ?b"
    by (simp add: hasTextFilter_def)
  have m: "textMatch disp ?a keys = textMatch disp ?b keys"
    by (rule ext) (simp add: textMatch_def)
  show "filterLogs lvl disp logs ?a keys = filterLogs lvl disp logs ?b keys"
    by (simp add: filterLogs_def Let_def levelTimeNodes_def k h m)
qed

text \<open>
  The theorem at a record whose level has no entry in the table, and at a record whose level
  is switched off.
\<close>

theorem level_gate_witness:
  "levels exFilter (exLevel (exRun\<lparr>typename := ''EngineEvent''\<rparr>)) = None \<and>
   levels (exFilter\<lparr>levels := map_of [(''INFO'', False)]\<rparr>) (exLevel exRun) = Some False \<and>
   exRun\<lparr>typename := ''EngineEvent''\<rparr> \<notin> set (filteredNodes (filterLogs exLevel id
        \<lparr>allNodes = [exRun\<lparr>typename := ''EngineEvent''\<rparr>, exRun]\<rparr> (exFilter\<lparr>hideNonMatches := False\<rparr>) [])) \<and>
   exRun \<notin> set (filteredNodes (filterLogs exLevel id
        \<lparr>allNodes = [exRun\<lparr>typename := ''EngineEvent''\<rparr>, exRun]\<rparr>
        (exFilter\<lparr>levels := map_of [(''INFO'', False)]\<rparr>) []))"
proof -
  let ?e = "exRun\<lparr>typename := ''EngineEvent''\<rparr>"
  let ?logs = "\<lparr>allNodes = [?e, exRun]\<rparr>"
  let ?f = "exFilter\<lparr>hideNonMatches := False\<rparr>"
  let ?g = "exFilter\<lparr>levels := map_of [(''INFO'', False)]\<rparr>"
  have a: "levels exFilter (exLevel ?e) = None" "levels ?f (exLevel ?e) = None"
    by (simp_all add: ex_defs)
  have b: "levels ?g (exLevel exRun) = Some False"
    by (simp add: ex_defs)
  from level_gate [of ?f exLevel ?e id ?logs "[]"] level_gate [of ?g exLevel exRun id ?logs "[]"] a b
  show ?thesis
    by simp
qed

subsection \<open>Missing fields\<close>

text \<open>
  Claim C7. The function raises nothing: its only member read on a possibly undefined value
  is guarded and yields the value of \<open>hasTextFilter\<close>, never a \<open>TypeError\<close>; everything else
  is a total function of the typed input. A query term that needs an optional field fails on
  a record without it: a \<open>step\<close> term and a \<open>query\<close> (scope) term are false on a record without
  step key, a \<open>query\<close> term is false on every record when the list of relevant step keys is
  empty, and a \<open>type\<close> term is false on a record without event type. A record on which such a
  term of the query fails is not in \<open>textMatchNodes\<close>.
\<close>

theorem missing_field_semantics:
  "hasTextFilterJS flt = Inr (hasTextFilter flt) \<and>
   (token t = Some ''step'' \<and> stepKey n = None \<longrightarrow> \<not> evalTerm disp keys n t) \<and>
   (token t = Some ''query'' \<and> stepKey n = None \<longrightarrow> \<not> evalTerm disp keys n t) \<and>
   (token t = Some ''query'' \<longrightarrow> \<not> evalTerm disp [] n t) \<and>
   (token t = Some ''type'' \<and> eventType n = None \<longrightarrow> \<not> evalTerm disp keys n t) \<and>
   (t \<in> set (logQuery flt) \<and>
    (token t = Some ''step'' \<and> stepKey n = None \<or>
     token t = Some ''query'' \<and> (stepKey n = None \<or> keys = []) \<or>
     token t = Some ''type'' \<and> eventType n = None) \<longrightarrow>
      n \<notin> set (textMatchNodes (filterLogs lvl disp logs flt keys)))"
proof -
  have 0: "hasTextFilterJS flt = Inr (hasTextFilter flt)"
    by (cases "logQuery flt")
      (simp_all add: hasTextFilterJS_def hasTextFilter_def arrayFirst_def readValue_def)
  have 1: "token t = Some ''step'' \<and> stepKey n = None \<longrightarrow> \<not> evalTerm disp keys n t"
    by (simp add: evalTerm_def truthy_str_def)
  have 2: "token t = Some ''query'' \<and> stepKey n = None \<longrightarrow> \<not> evalTerm disp keys n t"
    by (simp add: evalTerm_def truthy_str_def)
  have 3: "token t = Some ''query'' \<longrightarrow> \<not> evalTerm disp [] n t"
    by (simp add: evalTerm_def split: option.split)
  have 4: "token t = Some ''type'' \<and> eventType n = None \<longrightarrow> \<not> evalTerm disp keys n t"
    by (simp add: evalTerm_def truthy_str_def)
  have 5: "n \<notin> set (textMatchNodes (filterLogs lvl disp logs flt keys))"
    if m: "t \<in> set (logQuery flt)" and e: "\<not> evalTerm disp keys n t"
  proof -
    from m e have "\<not> textMatch disp flt keys n"
      by (auto simp: textMatch_def list_all_iff)
    then show ?thesis
      by (simp add: textMatchNodes_set)
  qed
  from 0 1 2 3 4 5 show ?thesis
    by blast
qed

text \<open>
  The theorem at the empty query (where the guard matters) and at a record with neither step
  key nor event type.
\<close>

theorem missing_field_semantics_witness:
  "logQuery exFilter = [] \<and> hasTextFilterJS exFilter = Inr False \<and>
   token \<lparr>token = Some ''step'', value = ''A''\<rparr> = Some ''step'' \<and> stepKey exRun = None \<and>
   \<not> evalTerm id [''A''] exRun \<lparr>token = Some ''step'', value = ''A''\<rparr> \<and>
   \<not> evalTerm id [''A''] exRun \<lparr>token = Some ''query'', value = ''q''\<rparr> \<and>
   \<not> evalTerm id [] exA \<lparr>token = Some ''query'', value = ''q''\<rparr> \<and>
   eventType exRun = None \<and>
   \<not> evalTerm id [''A''] exRun \<lparr>token = Some ''type'', value = ''LogMessageEvent''\<rparr> \<and>
   exRun \<notin> set (textMatchNodes (filterLogs exLevel id \<lparr>allNodes = [exRun, exA]\<rparr>
                    (exFilter\<lparr>logQuery := andQuery\<rparr>) [''A'']))"
proof -
  let ?s = "\<lparr>token = Some ''step'', value = ''A''\<rparr>"
  let ?q = "\<lparr>token = Some ''query'', value = ''q''\<rparr>"
  let ?t = "\<lparr>token = Some ''type'', value = ''LogMessageEvent''\<rparr>"
  let ?f = "exFilter\<lparr>logQuery := andQuery\<rparr>"
  have n: "stepKey exRun = None" "eventType exRun = None"
    by (simp_all add: exRun_def)
  have i: "?s \<in> set (logQuery ?f)"
    by (simp add: andQuery_def)
  note r = missing_field_semantics [of ?f ?s exRun id "[''A'']" exLevel "\<lparr>allNodes = [exRun, exA]\<rparr>"]
    missing_field_semantics [of ?f ?q exRun id "[''A'']" exLevel "\<lparr>allNodes = [exRun, exA]\<rparr>"]
    missing_field_semantics [of ?f ?q exA id "[''A'']" exLevel "\<lparr>allNodes = [exRun, exA]\<rparr>"]
    missing_field_semantics [of ?f ?t exRun id "[''A'']" exLevel "\<lparr>allNodes = [exRun, exA]\<rparr>"]
  have e: "logQuery exFilter = []" "\<not> hasTextFilter exFilter"
    by (simp_all add: exFilter_def hasTextFilter_def)
  have 0: "hasTextFilterJS exFilter = Inr False"
    using missing_field_semantics [of exFilter ?s exRun id "[]" exLevel "\<lparr>allNodes = []\<rparr>"] e
    by simp
  have 1: "\<not> evalTerm id [''A''] exRun ?s"
    using r(1) n by simp
  have 2: "\<not> evalTerm id [''A''] exRun ?q"
    using r(2) n by simp
  have 3: "\<not> evalTerm id [] exA ?q"
    using r(3) by simp
  have 4: "\<not> evalTerm id [''A''] exRun ?t"
    using r(4) n by simp
  have 5: "exRun \<notin> set (textMatchNodes (filterLogs exLevel id \<lparr>allNodes = [exRun, exA]\<rparr> ?f [''A'']))"
    using r(1) n i by simp
  from e 0 n 1 2 3 4 5 show ?thesis
    by simp
qed

subsection \<open>Free-text and unrecognised tokens\<close>

text \<open>
  Claim C8. A term whose token is none of \<open>query\<close>, \<open>step\<close>, \<open>type\<close> (the untokened term
  included) holds of a record if and only if the lower-cased message contains the lower-cased
  value as a contiguous run. Such a term with an empty value holds of every record. The test
  is case-insensitive: replacing the message and the value by case variants of them does not
  change its outcome. The untokened term \<open>failed\<close> holds of a record with message
  \<open>Step Failed\<close>. Lower-casing maps the row of upper-case letters to the row of lower-case
  letters, leaves the lower-case letters where they are, and leaves every character that is
  not an upper-case letter unchanged.
\<close>

theorem default_token_semantics:
  "(token t \<noteq> Some ''query'' \<and> token t \<noteq> Some ''step'' \<and> token t \<noteq> Some ''type'' \<longrightarrow>
      (evalTerm disp keys n t \<longleftrightarrow>
         (\<exists>pre suf. toLowerCase (message n) = pre @ toLowerCase (value t) @ suf)) \<and>
      (value t = [] \<longrightarrow> evalTerm disp keys n t) \<and>
      (list_all2 caseVariant (message n) m' \<and> list_all2 caseVariant (value t) v' \<longrightarrow>
         evalTerm disp keys (n\<lparr>message := m'\<rparr>) (t\<lparr>value := v'\<rparr>) = evalTerm disp keys n t)) \<and>
   (message n = ''Step Failed'' \<longrightarrow> evalTerm disp keys n \<lparr>token = None, value = ''failed''\<rparr>) \<and>
   toLowerCase upperLetters = lowerLetters \<and>
   toLowerCase lowerLetters = lowerLetters \<and>
   (c \<notin> set upperLetters \<longrightarrow> toLowerCase [c] = [c])"
proof (intro conjI impI)
  assume d: "token t \<noteq> Some ''query'' \<and> token t \<noteq> Some ''step'' \<and> token t \<noteq> Some ''type''"
  then have e: "evalTerm disp keys n t =
      str_includes (toLowerCase (message n)) (toLowerCase (value t))"
    by (simp add: evalTerm_def)
  then show "evalTerm disp keys n t \<longleftrightarrow>
         (\<exists>pre suf. toLowerCase (message n) = pre @ toLowerCase (value t) @ suf)"
    by (simp add: str_includes_sublist sublist_def)
  show "evalTerm disp keys n t" if "value t = []"
    using that e by (simp add: toLowerCase_def str_includes_Nil)
  show "evalTerm disp keys (n\<lparr>message := m'\<rparr>) (t\<lparr>value := v'\<rparr>) = evalTerm disp keys n t"
    if v: "list_all2 caseVariant (message n) m' \<and> list_all2 caseVariant (value t) v'"
  proof -
    from v have "toLowerCase (message n) = toLowerCase m'" "toLowerCase (value t) = toLowerCase v'"
      by (blast intro: toLowerCase_caseVariant)+
    with d show ?thesis
      by (simp add: evalTerm_def)
  qed
next
  assume m: "message n = ''Step Failed''"
  have "str_includes (toLowerCase ''Step Failed'') (toLowerCase ''failed'')"
    by code_simp
  with m show "evalTerm disp keys n \<lparr>token = None, value = ''failed''\<rparr>"
    by (simp add: evalTerm_def)
next
  show "toLowerCase upperLetters = lowerLetters"
    by (simp add: toLowerCase_def toLowerCase_upperLetters)
  show "toLowerCase lowerLetters = lowerLetters"
    by (simp add: toLowerCase_def toLowerCase_lowerLetters)
  show "toLowerCase [c] = [c]" if "c \<notin> set upperLetters"
    using that by (simp add: toLowerCase_def lowerChar_other)
qed

text \<open>
  The theorem at a term with the unrecognised token \<open>level\<close>, with an upper-case value, with
  a case variant of message and value and with an empty value; at the message
  \<open>Step Failed\<close>; at a message made of the capital letter of code 201 against the value made
  of its lower-case letter, code 233; and at a digit, which is no upper-case letter.
\<close>

theorem default_token_semantics_witness:
  "token \<lparr>token = Some ''level'', value = ''RAN''\<rparr> \<noteq> Some ''query'' \<and>
   token \<lparr>token = Some ''level'', value = ''RAN''\<rparr> \<noteq> Some ''step'' \<and>
   token \<lparr>token = Some ''level'', value = ''RAN''\<rparr> \<noteq> Some ''type'' \<and>
   toLowerCase (message exRun) = ''step '' @ toLowerCase (value \<lparr>token = Some ''level'', value = ''RAN''\<rparr>) @ [] \<and>
   evalTerm id [] exRun \<lparr>token = Some ''level'', value = ''RAN''\<rparr> \<and>
   evalTerm id [] exRun \<lparr>token = Some ''level'', value = []\<rparr> \<and>
   list_all2 caseVariant (message exRun) ''STEP ran'' \<and>
   list_all2 caseVariant (value \<lparr>token = Some ''level'', value = ''RAN''\<rparr>) ''rAn'' \<and>
   evalTerm id [] (exRun\<lparr>message := ''STEP ran''\<rparr>) \<lparr>token = Some ''level'', value = ''rAn''\<rparr> \<and>
   message (exRun\<lparr>message := ''Step Failed''\<rparr>) = ''Step Failed'' \<and>
   evalTerm id [] (exRun\<lparr>message := ''Step Failed''\<rparr>) \<lparr>token = None, value = ''failed''\<rparr> \<and>
   list_all2 caseVariant [CHR 0xC9] [CHR 0xE9] \<and>
   evalTerm id [] (exRun\<lparr>message := [CHR 0xC9]\<rparr>) \<lparr>token = None, value = [CHR 0xE9]\<rparr> \<and>
   CHR ''1'' \<notin> set upperLetters \<and> toLowerCase ''1'' = ''1''"
proof -
  let ?t = "\<lparr>token = Some ''level'', value = ''RAN''\<rparr>"
  let ?e = "\<lparr>token = Some ''level'', value = []\<rparr>"
  let ?n = "exRun\<lparr>message := ''Step Failed''\<rparr>"
  let ?a = "exRun\<lparr>message := [CHR 0xC9]\<rparr>"
  let ?u = "\<lparr>token = None, value = [CHR 0xC9]\<rparr>"
  have d: "token ?t \<noteq> Some ''query'' \<and> token ?t \<noteq> Some ''step'' \<and> token ?t \<noteq> Some ''type''"
    "token ?e \<noteq> Some ''query'' \<and> token ?e \<noteq> Some ''step'' \<and> token ?e \<noteq> Some ''type''"
    "token ?u \<noteq> Some ''query'' \<and> token ?u \<noteq> Some ''step'' \<and> token ?u \<noteq> Some ''type''"
    by simp_all
  have c: "toLowerCase (message exRun) = ''step '' @ toLowerCase (value ?t) @ []"
    by code_simp
  have m: "message ?n = ''Step Failed''"
    by simp
  have v: "list_all2 caseVariant (message exRun) ''STEP ran''"
    "list_all2 caseVariant (value ?t) ''rAn''"
    "list_all2 caseVariant [CHR 0xC9] [CHR 0xE9]"
    by code_simp+
  have o: "CHR ''1'' \<notin> set upperLetters"
    by code_simp
  note r = default_token_semantics [of ?t id "[]" exRun "''STEP ran''" "''rAn''" "CHR ''1''"]
    default_token_semantics [of ?e id "[]" ?n]
    default_token_semantics [of ?u id "[]" ?a "message ?a" "[CHR 0xE9]"]
  have 1: "evalTerm id [] exRun ?t"
    using r(1) d(1) c by blast
  have 2: "evalTerm id [] exRun ?e"
  proof -
    have "value ?e = []"
      by simp
    with default_token_semantics [of ?e id "[]" exRun] d(2) show ?thesis
      by blast
  qed
  have 3: "evalTerm id [] ?n \<lparr>token = None, value = ''failed''\<rparr>"
    using r(2) m by blast
  have 4: "evalTerm id [] (exRun\<lparr>message := ''STEP ran''\<rparr>) (?t\<lparr>value := ''rAn''\<rparr>)"
    using r(1) d(1) v(1,2) 1 by blast
  have 5: "toLowerCase ''1'' = ''1''"
    using r(1) o by blast
  have s: "list_all2 caseVariant (message ?a) (message ?a)"
    by code_simp
  have "evalTerm id [] ?a ?u"
  proof -
    have "toLowerCase (message ?a) = [] @ toLowerCase (value ?u) @ []"
      by simp
    with default_token_semantics [of ?u id "[]" ?a] d(3) show ?thesis
      by blast
  qed
  moreover have "list_all2 caseVariant (value ?u) [CHR 0xE9]"
    using v(3) by simp
  ultimately have "evalTerm id [] (?a\<lparr>message := message ?a\<rparr>) (?u\<lparr>value := [CHR 0xE9]\<rparr>)"
    using r(3) d(3) s by blast
  then have 6: "evalTerm id [] ?a \<lparr>token = None, value = [CHR 0xE9]\<rparr>"
    by simp
  from 4 have 4: "evalTerm id [] (exRun\<lparr>message := ''STEP ran''\<rparr>) \<lparr>token = Some ''level'', value = ''rAn''\<rparr>"
    by simp
  from d(1) c m v o 1 2 3 4 5 6 show ?thesis
    by blast
qed

subsection \<open>Containment of the text matches\<close>

text \<open>
  Claim C9. For every input, \<open>textMatchNodes\<close> is a sub-sequence of \<open>filteredNodes\<close>: every text
  match is visible, in the same relative order, for both values of \<open>hideNonMatches\<close> and whether
  or not a query is active.
\<close>

theorem containment:
  "subseq (textMatchNodes (filterLogs lvl disp logs flt keys))
          (filteredNodes (filterLogs lvl disp logs flt keys)) \<and>
   set (textMatchNodes (filterLogs lvl disp logs flt keys)) \<subseteq>
   set (filteredNodes (filterLogs lvl disp logs flt keys))"
proof -
  have "subseq (textMatchNodes (filterLogs lvl disp logs flt keys))
          (filteredNodes (filterLogs lvl disp logs flt keys))"
    by (simp add: textMatchNodes_filterLogs filteredNodes_filterLogs)
  moreover have "set (textMatchNodes (filterLogs lvl disp logs flt keys)) \<subseteq>
      set (filteredNodes (filterLogs lvl disp logs flt keys))"
    by (auto simp: textMatchNodes_filterLogs filteredNodes_filterLogs)
  ultimately show ?thesis
    by simp
qed

text \<open>The theorem at a batch with an active query and \<open>hideNonMatches\<close> off.\<close>

theorem containment_witness:
  "textMatchNodes (filterLogs exLevel id \<lparr>allNodes = [exRun, exA, exB]\<rparr>
                    (exFilter\<lparr>logQuery := andQuery, hideNonMatches := False\<rparr>) []) = [exA] \<and>
   filteredNodes (filterLogs exLevel id \<lparr>allNodes = [exRun, exA, exB]\<rparr>
                    (exFilter\<lparr>logQuery := andQuery, hideNonMatches := False\<rparr>) []) = [exRun, exA, exB] \<and>
   subseq [exA] [exRun, exA, exB]"
proof -
  let ?g = "exFilter\<lparr>logQuery := andQuery, hideNonMatches := False\<rparr>"
  let ?logs = "\<lparr>allNodes = [exRun, exA, exB]\<rparr>"
  have s: "levelTimeNodes exLevel ?logs ?g = [exRun, exA, exB]"
    by (simp add: levelTimeNodes_def stage_defs ex_defs)
  have h: "hasTextFilter ?g"
    by (simp add: hasTextFilter_def andQuery_def)
  have e: "\<not> textMatch id ?g [] exRun" "textMatch id ?g [] exA" "\<not> textMatch id ?g [] exB"
    by code_simp+
  have t: "textMatchNodes (filterLogs exLevel id ?logs ?g []) = [exA]"
    unfolding textMatchNodes_filterLogs s using h e by simp
  have f: "filteredNodes (filterLogs exLevel id ?logs ?g []) = [exRun, exA, exB]"
    unfolding filteredNodes_filterLogs s using h by simp
  from containment [of exLevel id ?logs ?g "[]"] t f show ?thesis
    by simp
qed

subsection \<open>A time floor of zero\<close>

text \<open>
  Claim C10. If \<open>sinceTime\<close> is 0, the time test drops no record, whatever its timestamp: the
  guard reads \<open>sinceTime\<close> for truthiness, so the level/time survivors and the whole result are
  those of the same filter with no floor at all.
\<close>

theorem zero_time_floor:
  "sinceTime flt = Some 0 \<Longrightarrow>
   \<not> beforeSinceTime flt n \<and>
   levelTimeNodes lvl logs flt = levelTimeNodes lvl logs (flt\<lparr>sinceTime := None\<rparr>) \<and>
   filterLogs lvl disp logs flt keys = filterLogs lvl disp logs (flt\<lparr>sinceTime := None\<rparr>) keys"
proof -
  assume z: "sinceTime flt = Some 0"
  then have b: "\<not> beforeSinceTime flt n"
    by (simp add: beforeSinceTime_def truthy_num_def)
  have s: "levelTimeNodes lvl logs flt = levelTimeNodes lvl logs (flt\<lparr>sinceTime := None\<rparr>)"
    by (simp add: levelTimeNodes_def keepNode_sinceTime_zero [OF z])
  have h: "hasTextFilter (flt\<lparr>sinceTime := None\<rparr>) = hasTextFilter flt"
    by (simp add: hasTextFilter_def)
  have m: "textMatch disp (flt\<lparr>sinceTime := None\<rparr>) keys = textMatch disp flt keys"
    by (rule ext) (simp add: textMatch_def)
  have "filterLogs lvl disp logs flt keys = filterLogs lvl disp logs (flt\<lparr>sinceTime := None\<rparr>) keys"
    by (simp add: filterLogs_def Let_def s h m)
  with b s show ?thesis
    by simp
qed

text \<open>The theorem at a record with a negative timestamp.\<close>

theorem zero_time_floor_witness:
  "sinceTime (exFilter\<lparr>sinceTime := Some 0\<rparr>) = Some 0 \<and>
   timestamp (exRun\<lparr>timestamp := - 5\<rparr>) < 0 \<and>
   \<not> beforeSinceTime (exFilter\<lparr>sinceTime := Some 0\<rparr>) (exRun\<lparr>timestamp := - 5\<rparr>) \<and>
   levelTimeNodes exLevel \<lparr>allNodes = [exRun\<lparr>timestamp := - 5\<rparr>]\<rparr> (exFilter\<lparr>sinceTime := Some 0\<rparr>)
     = [exRun\<lparr>timestamp := - 5\<rparr>]"
proof -
  let ?z = "exFilter\<lparr>sinceTime := Some 0\<rparr>"
  let ?n = "exRun\<lparr>timestamp := - 5\<rparr>"
  have z: "sinceTime ?z = Some 0"
    by simp
  have e: "?z\<lparr>sinceTime := None\<rparr> = exFilter"
    by (simp add: exFilter_def)
  have s: "levelTimeNodes exLevel \<lparr>allNodes = [?n]\<rparr> exFilter = [?n]"
    by (simp add: levelTimeNodes_def stage_defs ex_defs)
  from zero_time_floor [OF z, of ?n exLevel "\<lparr>allNodes = [?n]\<rparr>" id "[]"] e s show ?thesis
    by simp
qed

end
